theory Spec2Isabelle
  imports Complex_Main "HOL-Library.Sublist"
begin

section \<open>Data model\<close>

text \<open>
  \<^verbatim>\<open>ts.OutputFile\<close>: the batch element the build server hands to the plugin and gets
  back from it. The field \<^verbatim>\<open>text\<close> is written \<open>text'\<close>.
\<close>

record OutputFile =
  name :: string
  text' :: string
  writeByteOrderMark :: bool

text \<open>
  JavaScript values as far as the plugin touches them: what \<^verbatim>\<open>JSON.parse\<close> can
  return, plus \<^verbatim>\<open>undefined\<close>. An object is its list of own properties.
\<close>

datatype jsval =
    JUndefined
  | JNull
  | JBool bool
  | JNum rat
  | JStr string
  | JArr "jsval list"
  | JObj "(string \<times> jsval) list"

text \<open>
  The three ways a call of \<^verbatim>\<open>transformFile\<close> can throw: \<^verbatim>\<open>JSON.parse\<close> rejects the
  text of the map file, a property is read from \<^verbatim>\<open>undefined\<close> or \<^verbatim>\<open>null\<close>, or Babel
  itself fails on the source text (with its message).
\<close>

datatype error =
    JSONSyntaxError
  | TypeError
  | TransformError string

text \<open>The outcome of a promise once it has settled.\<close>

datatype 'a promise =
    Resolved 'a
  | Rejected error

text \<open>
  \<^verbatim>\<open>babel.IOptions\<close>. Every key the plugin reads or writes is a field; \<open>None\<close> is a key that
  the object does not have (never set, or removed by \<^verbatim>\<open>delete\<close>), which is not the same
  as a key holding \<^verbatim>\<open>undefined\<close>. The caller's remaining keys (presets, plugins, ...) are
  kept in \<open>others\<close>; the plugin neither reads nor writes them.
\<close>

record IOptions =
  filename :: "jsval option"
  filenameRelative :: "jsval option"
  sourceMaps :: "jsval option"
  sourceRoot :: "jsval option"
  sourceFileName :: "jsval option"
  sourceMapTarget :: "jsval option"
  inputSourceMap :: "jsval option"
  ast :: "jsval option"
  shouldPrintComment :: "(string \<Rightarrow> bool) option"
  others :: "(string \<times> jsval) list"

text \<open>What \<^verbatim>\<open>babel.transform\<close> returns; the field \<^verbatim>\<open>map\<close> is written \<open>map'\<close>.\<close>

record BabelFileResult =
  code :: string
  map' :: jsval

text \<open>
  The library functions the plugin calls and does not define. \<open>JSON_parse\<close> gives \<open>None\<close>
  where \<^verbatim>\<open>JSON.parse\<close> throws a SyntaxError; \<open>babel_transform\<close> gives \<open>Inl msg\<close> where
  \<^verbatim>\<open>babel.transform\<close> throws. They are parameters of the model: every theorem below
  holds for whatever these functions compute.
\<close>

record Externals =
  JSON_parse :: "string \<Rightarrow> jsval option"
  JSON_stringify :: "jsval \<Rightarrow> string"
  babel_transform :: "string \<Rightarrow> IOptions \<Rightarrow> string + BabelFileResult"


section \<open>JavaScript primitives\<close>

text \<open>The truth value of a JavaScript value in a condition.\<close>

fun truthy :: "jsval \<Rightarrow> bool" where
  "truthy JUndefined = False"
| "truthy JNull = False"
| "truthy (JBool b) = b"
| "truthy (JNum n) = (n \<noteq> 0)"
| "truthy (JStr s) = (s \<noteq> [])"
| "truthy (JArr xs) = True"
| "truthy (JObj kvs) = True"

text \<open>
  Reading the property \<open>k\<close> of a value, for the keys the plugin reads
  (\<^verbatim>\<open>sourceRoot\<close>, \<^verbatim>\<open>sources\<close>, \<^verbatim>\<open>file\<close>): a TypeError on \<^verbatim>\<open>undefined\<close> and \<^verbatim>\<open>null\<close>, the own
  property of an object, and \<^verbatim>\<open>undefined\<close> on everything else, since neither arrays nor
  primitives carry a property of these names.
\<close>

fun getProp :: "jsval \<Rightarrow> string \<Rightarrow> error + jsval" where
  "getProp JUndefined k = Inl TypeError"
| "getProp JNull k = Inl TypeError"
| "getProp (JObj kvs) k = Inr (case map_of kvs k of Some v \<Rightarrow> v | None \<Rightarrow> JUndefined)"
| "getProp v k = Inr JUndefined"

text \<open>Reading index 0 of a value: \<^verbatim>\<open>v[0]\<close>.\<close>

fun getIndex0 :: "jsval \<Rightarrow> error + jsval" where
  "getIndex0 JUndefined = Inl TypeError"
| "getIndex0 JNull = Inl TypeError"
| "getIndex0 (JArr xs) = Inr (case xs of [] \<Rightarrow> JUndefined | x # _ \<Rightarrow> x)"
| "getIndex0 (JStr s) = Inr (case s of [] \<Rightarrow> JUndefined | c # _ \<Rightarrow> JStr [c])"
| "getIndex0 (JObj kvs) = Inr (case map_of kvs ''0'' of Some v \<Rightarrow> v | None \<Rightarrow> JUndefined)"
| "getIndex0 v = Inr JUndefined"

text \<open>
  \<^verbatim>\<open>endsWith\<close>, of lodash and of \<^verbatim>\<open>String.prototype\<close> alike: the target has to fit, and
  has to sit at position \<^verbatim>\<open>length - target.length\<close>.
\<close>

definition endsWith :: "string \<Rightarrow> string \<Rightarrow> bool" where
  "endsWith s target \<longleftrightarrow>
     length target \<le> length s \<and> drop (length s - length target) s = target"

text \<open>
  \<^verbatim>\<open>path.basename\<close> of Node, POSIX flavour: the last segment of the path, separators at
  the end not counted.
\<close>

definition basename :: "string \<Rightarrow> string" where
  "basename p =
     rev (takeWhile (\<lambda>c. c \<noteq> CHR ''/'') (dropWhile (\<lambda>c. c = CHR ''/'') (rev p)))"


section \<open>The plugin\<close>

subsection \<open>Shared by both entry points\<close>

definition isSourceMappingURLComment :: "string \<Rightarrow> bool" where
  "isSourceMappingURLComment comment \<longleftrightarrow> prefix ''# sourceMappingURL='' comment"

definition findSourceMapFile :: "OutputFile \<Rightarrow> OutputFile list \<Rightarrow> OutputFile option" where
  "findSourceMapFile sourceFile files =
     (if \<not> endsWith (name sourceFile) ''.map'' then
        (let mapFilename = name sourceFile @ ''.map'';
             mapFiles = filter (\<lambda>candidate. name candidate = mapFilename) files
         in if length mapFiles > 0 then Some (mapFiles ! 0) else None)
      else None)"

text \<open>
  \<^verbatim>\<open>transformFile\<close> writes into the options object it is given, so the model returns the
  object as it is when the call returns or throws, next to the result. The assignments
  are made in the order of the source: a TypeError at \<^verbatim>\<open>inMap.sources[0]\<close> leaves
  \<^verbatim>\<open>sourceMaps\<close> and \<^verbatim>\<open>sourceRoot\<close> already written.
\<close>

definition transformFile ::
  "Externals \<Rightarrow> OutputFile \<Rightarrow> IOptions \<Rightarrow> OutputFile list
     \<Rightarrow> (error + OutputFile list) \<times> IOptions" where
  "transformFile ext inFile options files =
     (let options = options\<lparr>filename := Some (JStr (name inFile))\<rparr>;
          options = options\<lparr>filenameRelative := filename options\<rparr>;
          inMapFile = findSourceMapFile inFile files
      in case (case inMapFile of
                 Some mf \<Rightarrow>
                   (case JSON_parse ext (text' mf) of
                      None \<Rightarrow> Inl JSONSyntaxError
                    | Some v \<Rightarrow> Inr v)
               | None \<Rightarrow> Inr JUndefined) of
           Inl e \<Rightarrow> (Inl e, options)
         | Inr inMap \<Rightarrow>
             (case (if truthy inMap then
                      (let options = options\<lparr>sourceMaps := Some (JBool True)\<rparr> in
                       case getProp inMap ''sourceRoot'' of
                         Inl e \<Rightarrow> (Inl e, options)
                       | Inr sroot \<Rightarrow>
                           (let options = options\<lparr>sourceRoot := Some sroot\<rparr> in
                            case getProp inMap ''sources'' of
                              Inl e \<Rightarrow> (Inl e, options)
                            | Inr srcs \<Rightarrow>
                                (case getIndex0 srcs of
                                   Inl e \<Rightarrow> (Inl e, options)
                                 | Inr src0 \<Rightarrow>
                                     (let options = options\<lparr>sourceFileName := Some src0\<rparr> in
                                      case getProp inMap ''file'' of
                                        Inl e \<Rightarrow> (Inl e, options)
                                      | Inr target \<Rightarrow>
                                          (Inr (),
                                           options\<lparr>sourceMapTarget := Some target,
                                                   inputSourceMap := Some inMap\<rparr>)))))
                    else
                      (Inr (),
                       options\<lparr>sourceMaps := Some (JBool False),
                               sourceRoot := None,
                               sourceFileName := None,
                               sourceMapTarget := None,
                               inputSourceMap := None\<rparr>)) of
                (Inl e, options) \<Rightarrow> (Inl e, options)
              | (Inr u, options) \<Rightarrow>
                  (case babel_transform ext (text' inFile) options of
                     Inl msg \<Rightarrow> (Inl (TransformError msg), options)
                   | Inr result \<Rightarrow>
                       (let fileName = basename (name inFile);
                            sourceMappingURL =
                              (if truthy (map' result)
                               then ''\<newline>//# sourceMappingURL='' @ fileName @ ''.map''
                               else '''');
                            code' =
                              (if truthy (map' result)
                               then code result @ sourceMappingURL
                               else code result);
                            outSourceFile =
                              \<lparr>name = name inFile, text' = code',
                               writeByteOrderMark = writeByteOrderMark inFile\<rparr>
                        in case inMapFile of
                             Some mf \<Rightarrow>
                               if truthy (map' result) then
                                 (let outMapFile =
                                        \<lparr>name = name mf,
                                         text' = JSON_stringify ext (map' result),
                                         writeByteOrderMark = writeByteOrderMark mf\<rparr>
                                  in (Inr [outSourceFile, outMapFile], options))
                               else (Inr [outSourceFile], options)
                           | None \<Rightarrow> (Inr [outSourceFile], options)))))"

text \<open>
  \<^verbatim>\<open>_.extend(options, overrides)\<close> with the two fixed overrides: no AST in the result, and
  no comment printed that is a source map reference.
\<close>

definition extendOverrides :: "IOptions \<Rightarrow> IOptions" where
  "extendOverrides options =
     options\<lparr>ast := Some (JBool False),
             shouldPrintComment := Some (\<lambda>comment. \<not> isSourceMappingURLComment comment)\<rparr>"

text \<open>
  \<^verbatim>\<open>Promise.all\<close> over the promises the debug hooks return: rejected as soon as one of
  them is, resolved with all the values otherwise. Where several reject, the model
  reports the first in list order.
\<close>

fun promiseAll :: "'a promise list \<Rightarrow> 'a list promise" where
  "promiseAll [] = Resolved []"
| "promiseAll (Rejected e # ps) = Rejected e"
| "promiseAll (Resolved v # ps) =
     (case promiseAll ps of
        Rejected e \<Rightarrow> Rejected e
      | Resolved vs \<Rightarrow> Resolved (v # vs))"


subsection \<open>The functions exported by \<^verbatim>\<open>src/index.ts\<close>\<close>

text \<open>
  The callback of \<^verbatim>\<open>inputFiles.reduce\<close>, run over the files still to come. An exception
  of \<^verbatim>\<open>transformFile\<close> leaves the loop.
\<close>

fun reduceFiles ::
  "Externals \<Rightarrow> OutputFile list \<Rightarrow> OutputFile list \<Rightarrow> IOptions \<Rightarrow> OutputFile list
     \<Rightarrow> (error + OutputFile list) \<times> IOptions" where
  "reduceFiles ext inputFiles transformedFiles options [] = (Inr transformedFiles, options)"
| "reduceFiles ext inputFiles transformedFiles options (inputFile # rest) =
     (if endsWith (name inputFile) ''.map''
      then reduceFiles ext inputFiles transformedFiles options rest
      else case transformFile ext inputFile options inputFiles of
             (Inl e, options') \<Rightarrow> (Inl e, options')
           | (Inr out, options') \<Rightarrow>
               reduceFiles ext inputFiles (transformedFiles @ out) options' rest)"

definition babelTransform ::
  "Externals \<Rightarrow> OutputFile list \<Rightarrow> IOptions \<Rightarrow> OutputFile list promise \<times> IOptions" where
  "babelTransform ext inputFiles options =
     (case reduceFiles ext inputFiles [] (extendOverrides options) inputFiles of
        (Inl e, options') \<Rightarrow> (Rejected e, options')
      | (Inr transformedFiles, options') \<Rightarrow> (Resolved transformedFiles, options'))"

text \<open>
  A debug hook is modelled by the promise it returns for a file. What it does to the
  world outside (writing the file to disk, say) is not part of the model.
\<close>

definition babelTransformDebug ::
  "Externals \<Rightarrow> OutputFile list \<Rightarrow> IOptions
     \<Rightarrow> (OutputFile \<Rightarrow> 'a promise) \<Rightarrow> (OutputFile \<Rightarrow> 'b promise)
     \<Rightarrow> OutputFile list promise \<times> IOptions" where
  "babelTransformDebug ext files options debugInput debugOutput =
     (case promiseAll (map debugInput files) of
        Rejected e \<Rightarrow> (Rejected e, options)
      | Resolved u \<Rightarrow>
          (case babelTransform ext files options of
             (Rejected e, options') \<Rightarrow> (Rejected e, options')
           | (Resolved transformedFiles, options') \<Rightarrow>
               (case promiseAll (map debugOutput transformedFiles) of
                  Rejected e \<Rightarrow> (Rejected e, options')
                | Resolved u' \<Rightarrow> (Resolved transformedFiles, options'))))"


subsection \<open>The class \<^verbatim>\<open>BabelPlugin\<close> of \<^verbatim>\<open>lib/index.js\<close>\<close>

definition shouldTransformFile :: "string \<Rightarrow> bool" where
  "shouldTransformFile fileName \<longleftrightarrow> endsWith fileName ''.js'' \<or> endsWith fileName ''.jsx''"

definition shouldDiscardFile :: "string \<Rightarrow> bool" where
  "shouldDiscardFile fileName \<longleftrightarrow> endsWith fileName ''.map''"

record BabelPlugin =
  enableNodeModuleResolution :: bool
  babelOptions :: IOptions

text \<open>
  The callback of \<^verbatim>\<open>inputFiles.reduce\<close> in \<^verbatim>\<open>BabelPlugin.prototype.babelTransform\<close>, with
  its three branches; \<open>this\<close> is the plugin object, whose \<^verbatim>\<open>babelOptions\<close> every call of
  \<^verbatim>\<open>transformFile\<close> writes into.
\<close>

fun pluginReduceFiles ::
  "Externals \<Rightarrow> OutputFile list \<Rightarrow> OutputFile list \<Rightarrow> BabelPlugin \<Rightarrow> OutputFile list
     \<Rightarrow> (error + OutputFile list) \<times> BabelPlugin" where
  "pluginReduceFiles ext inputFiles transformedFiles this [] = (Inr transformedFiles, this)"
| "pluginReduceFiles ext inputFiles transformedFiles this (inputFile # rest) =
     (if shouldTransformFile (name inputFile) then
        (case transformFile ext inputFile (babelOptions this) inputFiles of
           (Inl e, options') \<Rightarrow> (Inl e, this\<lparr>babelOptions := options'\<rparr>)
         | (Inr out, options') \<Rightarrow>
             pluginReduceFiles ext inputFiles (transformedFiles @ out)
               (this\<lparr>babelOptions := options'\<rparr>) rest)
      else if shouldDiscardFile (name inputFile) then
        pluginReduceFiles ext inputFiles transformedFiles this rest
      else
        pluginReduceFiles ext inputFiles (transformedFiles @ [inputFile]) this rest)"

definition BabelPlugin_babelTransform ::
  "Externals \<Rightarrow> BabelPlugin \<Rightarrow> OutputFile list \<Rightarrow> OutputFile list promise \<times> BabelPlugin" where
  "BabelPlugin_babelTransform ext this inputFiles =
     (case pluginReduceFiles ext inputFiles [] this inputFiles of
        (Inl e, this') \<Rightarrow> (Rejected e, this')
      | (Inr transformedFiles, this') \<Rightarrow> (Resolved transformedFiles, this'))"

definition BabelPlugin_babelTransformDebug ::
  "Externals \<Rightarrow> BabelPlugin \<Rightarrow> OutputFile list
     \<Rightarrow> (OutputFile \<Rightarrow> 'a promise) \<Rightarrow> (OutputFile \<Rightarrow> 'b promise)
     \<Rightarrow> OutputFile list promise \<times> BabelPlugin" where
  "BabelPlugin_babelTransformDebug ext this files debugInput debugOutput =
     (case promiseAll (map debugInput files) of
        Rejected e \<Rightarrow> (Rejected e, this)
      | Resolved u \<Rightarrow>
          (case BabelPlugin_babelTransform ext this files of
             (Rejected e, this') \<Rightarrow> (Rejected e, this')
           | (Resolved transformedFiles, this') \<Rightarrow>
               (case promiseAll (map debugOutput transformedFiles) of
                  Rejected e \<Rightarrow> (Rejected e, this')
                | Resolved u' \<Rightarrow> (Resolved transformedFiles, this'))))"


section \<open>Vocabulary of the specification\<close>

text \<open>
  The definitions of this section are not code of the plugin. They name what the
  statements below talk about.
\<close>

text \<open>
  The options with everything \<^verbatim>\<open>transformFile\<close> writes per file taken out: two option
  objects that agree here differ only in what the next call overwrites or deletes.
\<close>

definition clearPerFile :: "IOptions \<Rightarrow> IOptions" where
  "clearPerFile options =
     options\<lparr>filename := None, filenameRelative := None, sourceMaps := None,
             sourceRoot := None, sourceFileName := None, sourceMapTarget := None,
             inputSourceMap := None\<rparr>"

text \<open>The options Babel is called with for a file whose map was found and read.\<close>

definition optionsWithMap ::
  "OutputFile \<Rightarrow> jsval \<Rightarrow> jsval \<Rightarrow> jsval \<Rightarrow> jsval \<Rightarrow> IOptions \<Rightarrow> IOptions" where
  "optionsWithMap inFile inMap sroot src0 target options =
     options\<lparr>filename := Some (JStr (name inFile)),
             filenameRelative := Some (JStr (name inFile)),
             sourceMaps := Some (JBool True),
             sourceRoot := Some sroot,
             sourceFileName := Some src0,
             sourceMapTarget := Some target,
             inputSourceMap := Some inMap\<rparr>"

text \<open>The options Babel is called with for a file without a usable map.\<close>

definition optionsWithoutMap :: "OutputFile \<Rightarrow> IOptions \<Rightarrow> IOptions" where
  "optionsWithoutMap inFile options =
     options\<lparr>filename := Some (JStr (name inFile)),
             filenameRelative := Some (JStr (name inFile)),
             sourceMaps := Some (JBool False),
             sourceRoot := None,
             sourceFileName := None,
             sourceMapTarget := None,
             inputSourceMap := None\<rparr>"

text \<open>
  Putting the results of the files of a batch together: the first failure is the
  failure of the batch, and without a failure the outputs follow each other in the order
  of the files.
\<close>

fun collect :: "(error + 'a list) list \<Rightarrow> error + 'a list" where
  "collect [] = Inr []"
| "collect (Inl e # rs) = Inl e"
| "collect (Inr xs # rs) = (case collect rs of Inl e \<Rightarrow> Inl e | Inr ys \<Rightarrow> Inr (xs @ ys))"

definition settled :: "error + 'a \<Rightarrow> 'a promise" where
  "settled r = (case r of Inl e \<Rightarrow> Rejected e | Inr x \<Rightarrow> Resolved x)"

text \<open>
  The map file shape of the specification, as far as the plugin depends on it: a JSON
  object whose \<^verbatim>\<open>sources\<close> is an array.
\<close>

definition isRawSourceMap :: "jsval \<Rightarrow> bool" where
  "isRawSourceMap v \<longleftrightarrow>
     (case v of
        JObj kvs \<Rightarrow> (case map_of kvs ''sources'' of Some (JArr srcs) \<Rightarrow> True | _ \<Rightarrow> False)
      | _ \<Rightarrow> False)"




section \<open>Sample inputs\<close>

text \<open>
  Stand-ins for the library functions, used to run the model on concrete batches:
  a parser that knows a handful of texts, a transform that prefixes the source and
  produces a map exactly when \<^verbatim>\<open>sourceMaps\<close> is \<^verbatim>\<open>true\<close>, and one that never produces a map.
\<close>

definition sampleMapText :: string where
  \<open>sampleMapText = ''{"version":3,"file":"a.js","sources":["a.ts"],"mappings":"AAAA"}''\<close>

definition sampleMap :: jsval where
  "sampleMap = JObj [(''version'', JNum 3), (''file'', JStr ''a.js''),
                     (''sources'', JArr [JStr ''a.ts'']), (''mappings'', JStr ''AAAA'')]"

definition sampleParse :: "string \<Rightarrow> jsval option" where
  "sampleParse s =
     (if s = ''null'' then Some JNull
      else if s = ''false'' then Some (JBool False)
      else if s = ''0'' then Some (JNum 0)
      else if s = sampleMapText then Some sampleMap
      else None)"

definition sampleStringify :: "jsval \<Rightarrow> string" where
  \<open>sampleStringify v = (if v = JObj [(''version'', JNum 3)] then ''{"version":3}'' else ''null'')\<close>

definition sampleTransform :: "string \<Rightarrow> IOptions \<Rightarrow> string + BabelFileResult" where
  "sampleTransform src opts =
     Inr \<lparr>code = ''/*es5*/'' @ src,
          map' = (if sourceMaps opts = Some (JBool True) then JObj [(''version'', JNum 3)]
                  else JNull)\<rparr>"

definition sampleTransformNoMap :: "string \<Rightarrow> IOptions \<Rightarrow> string + BabelFileResult" where
  "sampleTransformNoMap src opts = Inr \<lparr>code = ''/*es5*/'' @ src, map' = JUndefined\<rparr>"

definition sampleExt :: Externals where
  "sampleExt = \<lparr>JSON_parse = sampleParse, JSON_stringify = sampleStringify,
                babel_transform = sampleTransform\<rparr>"

definition sampleOptions :: IOptions where
  "sampleOptions = \<lparr>filename = None, filenameRelative = None, sourceMaps = None,
     sourceRoot = None, sourceFileName = None, sourceMapTarget = None,
     inputSourceMap = None, ast = None, shouldPrintComment = None,
     others = [(''babelrc'', JBool False)]\<rparr>"

definition samplePlugin :: BabelPlugin where
  "samplePlugin =
     \<lparr>enableNodeModuleResolution = False, babelOptions = extendOverrides sampleOptions\<rparr>"

lemmas sample_defs = sampleExt_def sampleParse_def sampleMapText_def sampleMap_def
  sampleStringify_def sampleTransform_def sampleTransformNoMap_def sampleOptions_def
  samplePlugin_def

lemmas run_defs = babelTransform_def BabelPlugin_babelTransform_def transformFile_def
  findSourceMapFile_def endsWith_def basename_def extendOverrides_def
  shouldTransformFile_def shouldDiscardFile_def Let_def


section \<open>Auxiliary facts\<close>

subsection \<open>Suffixes and the map locator\<close>


lemma filter_find: "(case filter P xs of [] \<Rightarrow> None | x # _ \<Rightarrow> Some x) = find P xs"
  by (induction xs) auto

lemma findSourceMapFile_find:
  "findSourceMapFile sourceFile files =
     (if endsWith (name sourceFile) ''.map'' then None
      else find (\<lambda>candidate. name candidate = name sourceFile @ ''.map'') files)"
  unfolding findSourceMapFile_def Let_def
  by (simp add: filter_find [symmetric] nth_Cons' split: list.splits)

lemma findSourceMapFile_Some_not_map:
  "findSourceMapFile f files = Some m \<Longrightarrow> \<not> endsWith (name f) ''.map''"
  by (simp add: findSourceMapFile_def split: if_splits)

lemma findSourceMapFile_Some_name:
  "findSourceMapFile f files = Some m \<Longrightarrow> name m = name f @ ''.map''"
  by (auto simp: findSourceMapFile_find find_Some_iff split: if_splits)

lemma findSourceMapFile_pair:
  assumes "name m = name a @ ''.map''" "\<not> endsWith (name a) ''.map''"
  shows "findSourceMapFile a [a, m] = Some m" "findSourceMapFile a [m, a] = Some m"
  using assms by (simp_all add: findSourceMapFile_def)

lemma findSourceMapFile_single: "findSourceMapFile a [a] = None"
  by (simp add: findSourceMapFile_def)


subsection \<open>One call of \<^verbatim>\<open>transformFile\<close>\<close>

lemma OutputFile_text_update:
  "\<lparr>name = name f, text' = c, writeByteOrderMark = writeByteOrderMark f\<rparr> = f\<lparr>text' := c\<rparr>"
  by simp

lemma transformFile_with_map:
  assumes "findSourceMapFile inFile files = Some mf"
    and "JSON_parse ext (text' mf) = Some inMap" and "truthy inMap"
    and "getProp inMap ''sourceRoot'' = Inr sroot"
    and "getProp inMap ''sources'' = Inr srcs" and "getIndex0 srcs = Inr src0"
    and "getProp inMap ''file'' = Inr target"
    and "options1 = optionsWithMap inFile inMap sroot src0 target options"
  shows "transformFile ext inFile options files =
     (case babel_transform ext (text' inFile) options1 of
        Inl msg \<Rightarrow> (Inl (TransformError msg), options1)
      | Inr result \<Rightarrow>
          (if truthy (map' result)
           then Inr [inFile\<lparr>text' := code result @ ''\<newline>//# sourceMappingURL=''
                                   @ basename (name inFile) @ ''.map''\<rparr>,
                     mf\<lparr>text' := JSON_stringify ext (map' result)\<rparr>]
           else Inr [inFile\<lparr>text' := code result\<rparr>], options1))"
  using assms(1-7) unfolding assms(8) transformFile_def optionsWithMap_def Let_def
  by (simp add: OutputFile_text_update split: sum.splits)

lemma transformFile_without_map:
  assumes "findSourceMapFile inFile files = None
           \<or> (\<exists>mf inMap. findSourceMapFile inFile files = Some mf
                 \<and> JSON_parse ext (text' mf) = Some inMap \<and> \<not> truthy inMap
                 \<and> (\<forall>result. babel_transform ext (text' inFile) options1 = Inr result
                       \<longrightarrow> \<not> truthy (map' result)))"
    and "options1 = optionsWithoutMap inFile options"
  shows "transformFile ext inFile options files =
     (case babel_transform ext (text' inFile) options1 of
        Inl msg \<Rightarrow> (Inl (TransformError msg), options1)
      | Inr result \<Rightarrow>
          (Inr [inFile\<lparr>text' :=
                   (if truthy (map' result)
                    then code result @ ''\<newline>//# sourceMappingURL=''
                           @ basename (name inFile) @ ''.map''
                    else code result)\<rparr>], options1))"
  using assms(1) unfolding assms(2) transformFile_def optionsWithoutMap_def Let_def
  by (auto simp add: OutputFile_text_update split: sum.splits)

lemma transformFile_bad_json:
  assumes "findSourceMapFile f files = Some m" "JSON_parse ext (text' m) = None"
  shows "fst (transformFile ext f options files) = Inl JSONSyntaxError"
  using assms by (simp add: transformFile_def Let_def)

lemma transformFile_context:
  "findSourceMapFile f files = findSourceMapFile f files' \<Longrightarrow>
   transformFile ext f options files = transformFile ext f options files'"
  by (simp add: transformFile_def)

lemma optionsWithoutMap_clear:
  "clearPerFile options = clearPerFile options0 \<Longrightarrow>
   optionsWithoutMap f options = optionsWithoutMap f options0"
proof -
  assume eq: "clearPerFile options = clearPerFile options0"
  have "optionsWithoutMap f opts = optionsWithoutMap f (clearPerFile opts)" for opts
    by (simp add: optionsWithoutMap_def clearPerFile_def)
  from this [of options] this [of options0] eq show ?thesis by simp
qed

lemma transformFile_no_map_state:
  assumes "findSourceMapFile f files = None"
  shows "snd (transformFile ext f options files) = optionsWithoutMap f options"
  using transformFile_without_map [of f files ext "optionsWithoutMap f options" options] assms
  by (simp split: sum.splits)

lemma getProp_error: "getProp v k = Inl e \<Longrightarrow> e = TypeError"
  by (cases v) simp_all

lemma getIndex0_error: "getIndex0 v = Inl e \<Longrightarrow> e = TypeError"
  by (cases v) simp_all

lemma transformFile_JSONSyntaxError_iff:
  "fst (transformFile ext f opts fs) = Inl JSONSyntaxError \<longleftrightarrow>
      (\<exists>m. findSourceMapFile f fs = Some m \<and> JSON_parse ext (text' m) = None)"
proof (cases "findSourceMapFile f fs")
  case None
  then show ?thesis
    using transformFile_without_map [of f fs ext "optionsWithoutMap f opts" opts]
    by (simp split: sum.splits)
next
  case (Some m)
  show ?thesis
  proof (cases "JSON_parse ext (text' m)")
    case None
    then show ?thesis using Some transformFile_bad_json [of f fs m ext opts] by simp
  next
    case (Some v)
    have "fst (transformFile ext f opts fs) \<noteq> Inl JSONSyntaxError"
      using \<open>findSourceMapFile f fs = Some m\<close> Some
      unfolding transformFile_def Let_def
      by (auto split: sum.splits dest: getProp_error getIndex0_error)
    then show ?thesis using \<open>findSourceMapFile f fs = Some m\<close> Some by simp
  qed
qed

lemma isRawSourceMapE:
  assumes "isRawSourceMap v"
  obtains kvs srcs where "v = JObj kvs" "map_of kvs ''sources'' = Some (JArr srcs)"
proof (cases v)
  case (JObj kvs)
  show ?thesis
  proof (cases "map_of kvs ''sources''")
    case None
    then show ?thesis using assms JObj by (simp add: isRawSourceMap_def)
  next
    case (Some s)
    then show ?thesis using assms JObj that by (cases s) (simp_all add: isRawSourceMap_def)
  qed
qed (use assms in \<open>simp_all add: isRawSourceMap_def\<close>)

lemma isRawSourceMap_reads:
  assumes "isRawSourceMap v"
  obtains sroot srcs src0 target where
    "truthy v" "getProp v ''sourceRoot'' = Inr sroot" "getProp v ''sources'' = Inr srcs"
    "getIndex0 srcs = Inr src0" "getProp v ''file'' = Inr target"
proof -
  obtain kvs srcs where v: "v = JObj kvs" "map_of kvs ''sources'' = Some (JArr srcs)"
    using assms by (rule isRawSourceMapE)
  show ?thesis
    by (rule that [of _ "JArr srcs"]) (simp_all add: v)
qed

text \<open>
  What a call leaves in the options never depends on the seven keys it writes, and
  neither does its result: this is why the object can be shared by the files of a batch.
\<close>

lemma transformFile_clear:
  "fst (transformFile ext f (clearPerFile options) files) = fst (transformFile ext f options files)"
  unfolding transformFile_def clearPerFile_def Let_def
  by (simp split: option.splits sum.splits prod.splits)

lemma transformFile_state:
  "clearPerFile (snd (transformFile ext f options files)) = clearPerFile options"
  unfolding transformFile_def clearPerFile_def Let_def
  by (simp split: option.splits sum.splits prod.splits)

lemma transformFile_fst_cong:
  assumes "clearPerFile options = clearPerFile options0"
  shows "fst (transformFile ext f options files) = fst (transformFile ext f options0 files)"
  using assms transformFile_clear by metis

subsection \<open>The loops over the batch\<close>

lemma reduceFiles_collect:
  "clearPerFile options = clearPerFile options0 \<Longrightarrow>
   fst (reduceFiles ext inputFiles acc options rest) =
     (case collect (map (\<lambda>f. if endsWith (name f) ''.map'' then Inr []
                               else fst (transformFile ext f options0 inputFiles)) rest) of
        Inl e \<Rightarrow> Inl e
      | Inr ys \<Rightarrow> Inr (acc @ ys))"
proof (induction rest arbitrary: acc options)
  case Nil
  then show ?case by simp
next
  case (Cons f rest)
  show ?case
  proof (cases "endsWith (name f) ''.map''")
    case True
    then show ?thesis using Cons.IH [OF Cons.prems, of acc] by (simp split: sum.splits)
  next
    case False
    obtain r o' where t: "transformFile ext f options inputFiles = (r, o')"
      by (cases "transformFile ext f options inputFiles")
    have r: "fst (transformFile ext f options0 inputFiles) = r"
      using transformFile_fst_cong [OF Cons.prems, of ext f inputFiles] t by simp
    have o': "clearPerFile o' = clearPerFile options0"
      using transformFile_state [of ext f options inputFiles] t Cons.prems by simp
    show ?thesis
    proof (cases r)
      case (Inl e)
      then show ?thesis using False t r by simp
    next
      case (Inr out)
      then show ?thesis
        using False t r Cons.IH [OF o', of "acc @ out"] by (simp split: sum.splits)
    qed
  qed
qed

lemma babelTransform_collect:
  "fst (babelTransform ext inputFiles options) =
     settled (collect (map (\<lambda>f. if endsWith (name f) ''.map'' then Inr []
                               else fst (transformFile ext f (extendOverrides options) inputFiles))
                inputFiles))"
  unfolding babelTransform_def settled_def
  using reduceFiles_collect [OF refl, of ext inputFiles "[]" "extendOverrides options" inputFiles]
  by (cases "reduceFiles ext inputFiles [] (extendOverrides options) inputFiles")
     (auto split: sum.splits)

lemma pluginReduceFiles_collect:
  "clearPerFile (babelOptions this) = clearPerFile options0 \<Longrightarrow>
   fst (pluginReduceFiles ext inputFiles acc this rest) =
     (case collect (map (\<lambda>f. if shouldTransformFile (name f)
                               then fst (transformFile ext f options0 inputFiles)
                               else if shouldDiscardFile (name f) then Inr []
                               else Inr [f]) rest) of
        Inl e \<Rightarrow> Inl e
      | Inr ys \<Rightarrow> Inr (acc @ ys))"
proof (induction rest arbitrary: acc this)
  case Nil
  then show ?case by simp
next
  case (Cons f rest)
  show ?case
  proof (cases "shouldTransformFile (name f)")
    case False
    then show ?thesis
      using Cons.IH [OF Cons.prems, of acc] Cons.IH [OF Cons.prems, of "acc @ [f]"]
      by (simp split: sum.splits)
  next
    case True
    obtain r o' where t: "transformFile ext f (babelOptions this) inputFiles = (r, o')"
      by (cases "transformFile ext f (babelOptions this) inputFiles")
    have r: "fst (transformFile ext f options0 inputFiles) = r"
      using transformFile_fst_cong [OF Cons.prems, of ext f inputFiles] t by simp
    have o': "clearPerFile (babelOptions (this\<lparr>babelOptions := o'\<rparr>)) = clearPerFile options0"
      using transformFile_state [of ext f "babelOptions this" inputFiles] t Cons.prems by simp
    show ?thesis
    proof (cases r)
      case (Inl e)
      then show ?thesis using True t r by simp
    next
      case (Inr out)
      then show ?thesis
        using True t r Cons.IH [OF o', of "acc @ out"] by (simp split: sum.splits)
    qed
  qed
qed

lemma BabelPlugin_babelTransform_collect:
  "fst (BabelPlugin_babelTransform ext this inputFiles) =
     settled (collect (map (\<lambda>f. if shouldTransformFile (name f)
                               then fst (transformFile ext f (babelOptions this) inputFiles)
                               else if shouldDiscardFile (name f) then Inr []
                               else Inr [f]) inputFiles))"
  unfolding BabelPlugin_babelTransform_def settled_def
  using pluginReduceFiles_collect [OF refl, of ext inputFiles "[]" this inputFiles]
  by (cases "pluginReduceFiles ext inputFiles [] this inputFiles")
     (auto split: sum.splits)

lemma collect_Inl:
  assumes "x \<in> set xs" "g x = Inl e"
  shows "\<exists>e'. collect (map g xs) = Inl e'"
  using assms
proof (induction xs)
  case Nil
  then show ?case by simp
next
  case (Cons y ys)
  then show ?case by (cases "g y") (auto split: sum.splits)
qed

lemma babelTransform_pair:
  assumes "\<not> endsWith (name a) ''.map''" "endsWith (name m) ''.map''"
    and "inputFiles = [a, m] \<or> inputFiles = [m, a]"
  shows "babelTransform ext inputFiles options =
     (case transformFile ext a (extendOverrides options) inputFiles of
        (Inl e, options') \<Rightarrow> (Rejected e, options')
      | (Inr out, options') \<Rightarrow> (Resolved out, options'))"
  using assms by (auto simp: babelTransform_def split: prod.splits sum.splits)


lemma promiseAll_Resolved: "promiseAll (map (\<lambda>f. Resolved (v f)) xs) = Resolved (map v xs)"
  by (induction xs) simp_all

section \<open>The map locator\<close>

text \<open>
  Claim C6. The map locator returns nothing when the name of the source file ends with
  \<^verbatim>\<open>.map\<close>; otherwise it returns the first element of the batch, in batch order, whose
  name is the name of the source file followed by \<^verbatim>\<open>.map\<close>, and nothing when there is no
  such element. Being a function of the source file and the batch alone, it depends on
  nothing else.
\<close>

theorem findSourceMapFile_spec:
  "findSourceMapFile sourceFile files =
     (if endsWith (name sourceFile) ''.map'' then None
      else find (\<lambda>candidate. name candidate = name sourceFile @ ''.map'') files)"
  by (rule findSourceMapFile_find)

theorem findSourceMapFile_spec_witness:
  "findSourceMapFile \<lparr>name = ''a.js'', text' = ''let x;'', writeByteOrderMark = False\<rparr>
     [\<lparr>name = ''b.js'', text' = '''', writeByteOrderMark = False\<rparr>,
      \<lparr>name = ''a.js.map'', text' = ''first'', writeByteOrderMark = False\<rparr>,
      \<lparr>name = ''a.js.map'', text' = ''second'', writeByteOrderMark = False\<rparr>]
     = Some \<lparr>name = ''a.js.map'', text' = ''first'', writeByteOrderMark = False\<rparr>
   \<and> findSourceMapFile \<lparr>name = ''a.js.map'', text' = ''first'', writeByteOrderMark = False\<rparr>
     [\<lparr>name = ''a.js.map.map'', text' = '''', writeByteOrderMark = False\<rparr>] = None"
  using findSourceMapFile_spec
    [of "\<lparr>name = ''a.js'', text' = ''let x;'', writeByteOrderMark = False\<rparr>"
        "[\<lparr>name = ''b.js'', text' = '''', writeByteOrderMark = False\<rparr>,
          \<lparr>name = ''a.js.map'', text' = ''first'', writeByteOrderMark = False\<rparr>,
          \<lparr>name = ''a.js.map'', text' = ''second'', writeByteOrderMark = False\<rparr>]"]
    findSourceMapFile_spec
    [of "\<lparr>name = ''a.js.map'', text' = ''first'', writeByteOrderMark = False\<rparr>"
        "[\<lparr>name = ''a.js.map.map'', text' = '''', writeByteOrderMark = False\<rparr>]"]
  by (simp add: endsWith_def)


section \<open>The file transformer\<close>

text \<open>
  Claim C8. Whenever \<^verbatim>\<open>transformFile\<close> returns, it returns either the input file with a
  new text, or that followed by the input map file with a new text: names and
  \<^verbatim>\<open>writeByteOrderMark\<close> flags are those of the inputs, and only the text differs. The
  function builds new objects and assigns to no field of a file it was given, which is
  why files are values in this model and no call returns a changed batch.
\<close>

theorem transformFile_frame:
  assumes "fst (transformFile ext inFile options files) = Inr out"
  shows "(\<exists>c. out = [inFile\<lparr>text' := c\<rparr>])
         \<or> (\<exists>c mf t. findSourceMapFile inFile files = Some mf
                    \<and> out = [inFile\<lparr>text' := c\<rparr>, mf\<lparr>text' := t\<rparr>])"
  using assms unfolding transformFile_def Let_def
  by (auto simp: OutputFile_text_update split: option.splits sum.splits if_splits prod.splits)

theorem transformFile_frame_witness:
  \<open>fst (transformFile sampleExt
          \<lparr>name = ''a.js'', text' = ''let x;'', writeByteOrderMark = True\<rparr> sampleOptions
          [\<lparr>name = ''a.js'', text' = ''let x;'', writeByteOrderMark = True\<rparr>,
           \<lparr>name = ''a.js.map'', text' = sampleMapText, writeByteOrderMark = False\<rparr>]) =
     Inr [\<lparr>name = ''a.js'', text' = ''/*es5*/let x;\<newline>//# sourceMappingURL=a.js.map'',
           writeByteOrderMark = True\<rparr>,
          \<lparr>name = ''a.js.map'', text' = ''{"version":3}'', writeByteOrderMark = False\<rparr>]\<close>
  using transformFile_frame
    [of sampleExt "\<lparr>name = ''a.js'', text' = ''let x;'', writeByteOrderMark = True\<rparr>" sampleOptions
        "[\<lparr>name = ''a.js'', text' = ''let x;'', writeByteOrderMark = True\<rparr>,
          \<lparr>name = ''a.js.map'', text' = sampleMapText, writeByteOrderMark = False\<rparr>]"]
  by (simp add: sample_defs run_defs)

text \<open>
  Claim C10. When the map file that was found holds JSON for a falsy value (\<^verbatim>\<open>null\<close>,
  \<^verbatim>\<open>false\<close>, \<^verbatim>\<open>0\<close>), \<^verbatim>\<open>transformFile\<close> raises nothing of its own and does what it does
  when there is no map file at all: map generation is switched off, the four map keys
  are deleted, Babel is called with these options, and one file is returned. The
  statement takes from Babel that it produces no map when \<^verbatim>\<open>sourceMaps\<close> is \<^verbatim>\<open>false\<close>.
  The last conjunct is the other half of the claim: the JSON error is raised exactly
  when a map file was found whose text does not parse.
\<close>

theorem transformFile_falsy_map:
  assumes "findSourceMapFile inFile files = Some mf"
    and "JSON_parse ext (text' mf) = Some inMap" and "\<not> truthy inMap"
    and "\<And>opts result. sourceMaps opts = Some (JBool False) \<Longrightarrow>
           babel_transform ext (text' inFile) opts = Inr result \<Longrightarrow> \<not> truthy (map' result)"
  shows "transformFile ext inFile options files = transformFile ext inFile options []
         \<and> sourceMaps (snd (transformFile ext inFile options files)) = Some (JBool False)
         \<and> sourceRoot (snd (transformFile ext inFile options files)) = None
         \<and> sourceFileName (snd (transformFile ext inFile options files)) = None
         \<and> sourceMapTarget (snd (transformFile ext inFile options files)) = None
         \<and> inputSourceMap (snd (transformFile ext inFile options files)) = None
         \<and> (case babel_transform ext (text' inFile) (snd (transformFile ext inFile options files)) of
               Inl msg \<Rightarrow> fst (transformFile ext inFile options files) = Inl (TransformError msg)
             | Inr result \<Rightarrow>
                 fst (transformFile ext inFile options files) = Inr [inFile\<lparr>text' := code result\<rparr>])
         \<and> (\<forall>f fs opts. fst (transformFile ext f opts fs) = Inl JSONSyntaxError \<longleftrightarrow>
               (\<exists>m. findSourceMapFile f fs = Some m \<and> JSON_parse ext (text' m) = None))"
proof -
  define o1 where "o1 = optionsWithoutMap inFile options"
  have sm: "sourceMaps o1 = Some (JBool False)" "sourceRoot o1 = None" "sourceFileName o1 = None"
    "sourceMapTarget o1 = None" "inputSourceMap o1 = None"
    by (simp_all add: o1_def optionsWithoutMap_def)
  have nomap: "\<not> truthy (map' result)" if "babel_transform ext (text' inFile) o1 = Inr result"
    for result
    using assms(4) [OF sm(1) that] .
  have a: "transformFile ext inFile options files =
     (case babel_transform ext (text' inFile) o1 of
        Inl msg \<Rightarrow> (Inl (TransformError msg), o1)
      | Inr result \<Rightarrow> (Inr [inFile\<lparr>text' := code result\<rparr>], o1))"
    using transformFile_without_map [of inFile files ext o1 options] assms(1,2,3) nomap o1_def
    by (auto split: sum.splits)
  have b: "transformFile ext inFile options [] =
     (case babel_transform ext (text' inFile) o1 of
        Inl msg \<Rightarrow> (Inl (TransformError msg), o1)
      | Inr result \<Rightarrow> (Inr [inFile\<lparr>text' := code result\<rparr>], o1))"
    using transformFile_without_map [of inFile "[]" ext o1 options] nomap o1_def
    by (auto simp: findSourceMapFile_def split: sum.splits)
  have s: "snd (transformFile ext inFile options files) = o1"
    using a by (simp split: sum.splits)
  have c: "case babel_transform ext (text' inFile) o1 of
               Inl msg \<Rightarrow> fst (transformFile ext inFile options files) = Inl (TransformError msg)
             | Inr result \<Rightarrow>
                 fst (transformFile ext inFile options files) = Inr [inFile\<lparr>text' := code result\<rparr>]"
    using a by (simp split: sum.splits)
  show ?thesis
    unfolding s using a b sm c transformFile_JSONSyntaxError_iff [of ext] by simp
qed

theorem transformFile_falsy_map_witness:
  "transformFile sampleExt
      \<lparr>name = ''a.js'', text' = ''let x;'', writeByteOrderMark = False\<rparr> sampleOptions
      [\<lparr>name = ''a.js'', text' = ''let x;'', writeByteOrderMark = False\<rparr>,
       \<lparr>name = ''a.js.map'', text' = ''null'', writeByteOrderMark = False\<rparr>] =
   transformFile sampleExt
      \<lparr>name = ''a.js'', text' = ''let x;'', writeByteOrderMark = False\<rparr> sampleOptions []
   \<and> fst (transformFile sampleExt
      \<lparr>name = ''a.js'', text' = ''let x;'', writeByteOrderMark = False\<rparr> sampleOptions
      [\<lparr>name = ''a.js'', text' = ''let x;'', writeByteOrderMark = False\<rparr>,
       \<lparr>name = ''a.js.map'', text' = ''null'', writeByteOrderMark = False\<rparr>]) =
     Inr [\<lparr>name = ''a.js'', text' = ''/*es5*/let x;'', writeByteOrderMark = False\<rparr>]"
  using transformFile_falsy_map
    [of "\<lparr>name = ''a.js'', text' = ''let x;'', writeByteOrderMark = False\<rparr>"
        "[\<lparr>name = ''a.js'', text' = ''let x;'', writeByteOrderMark = False\<rparr>,
          \<lparr>name = ''a.js.map'', text' = ''null'', writeByteOrderMark = False\<rparr>]"
        "\<lparr>name = ''a.js.map'', text' = ''null'', writeByteOrderMark = False\<rparr>"
        sampleExt JNull sampleOptions]
  by (simp add: sample_defs run_defs)


section \<open>The batch transform\<close>




text \<open>
  Claim C2. For the batch of \<^verbatim>\<open>a.js\<close> and \<^verbatim>\<open>a.js.map\<close>, in either order, with a map file
  that parses to a source map and a Babel that produces a map when asked for one, the
  batch transform resolves with two files: \<^verbatim>\<open>a.js\<close>, whose text is Babel's code followed
  by the line \<^verbatim>\<open>//# sourceMappingURL=a.js.map\<close>, and then \<^verbatim>\<open>a.js.map\<close>, whose text is the
  serialisation of the map Babel produced. Babel was called with the parsed map as
  \<^verbatim>\<open>inputSourceMap\<close>.
\<close>

theorem babelTransform_map_pairing:
  assumes "name a = ''a.js''" and "name m = ''a.js.map''"
    and "inputFiles = [a, m] \<or> inputFiles = [m, a]"
    and "JSON_parse ext (text' m) = Some v" and "isRawSourceMap v"
    and "\<And>opts. sourceMaps opts = Some (JBool True) \<Longrightarrow>
           \<exists>r. babel_transform ext (text' a) opts = Inr r \<and> truthy (map' r)"
  shows "\<exists>r. babel_transform ext (text' a) (snd (babelTransform ext inputFiles options)) = Inr r
           \<and> truthy (map' r)
           \<and> inputSourceMap (snd (babelTransform ext inputFiles options)) = Some v
           \<and> fst (babelTransform ext inputFiles options) =
               Resolved [a\<lparr>text' := code r @ ''\<newline>//# sourceMappingURL=a.js.map''\<rparr>,
                         m\<lparr>text' := JSON_stringify ext (map' r)\<rparr>]"
proof -
  have ends: "\<not> endsWith (name a) ''.map''" "endsWith (name m) ''.map''"
    using assms(1,2) by (simp_all add: endsWith_def)
  have fm: "findSourceMapFile a inputFiles = Some m"
    using assms(1,2,3) ends findSourceMapFile_pair [of m a] by auto
  obtain sroot srcs src0 target where rd:
    "truthy v" "getProp v ''sourceRoot'' = Inr sroot" "getProp v ''sources'' = Inr srcs"
    "getIndex0 srcs = Inr src0" "getProp v ''file'' = Inr target"
    using assms(5) by (rule isRawSourceMap_reads)
  define o1 where "o1 = optionsWithMap a v sroot src0 target (extendOverrides options)"
  have "sourceMaps o1 = Some (JBool True)" by (simp add: o1_def optionsWithMap_def)
  then obtain r where r: "babel_transform ext (text' a) o1 = Inr r" "truthy (map' r)"
    using assms(6) by blast
  have bn: "basename (name a) = ''a.js''"
    using assms(1) by (simp add: basename_def)
  have tf: "transformFile ext a (extendOverrides options) inputFiles =
      (Inr [a\<lparr>text' := code r @ ''\<newline>//# sourceMappingURL=a.js.map''\<rparr>,
            m\<lparr>text' := JSON_stringify ext (map' r)\<rparr>], o1)"
    using transformFile_with_map [OF fm assms(4) rd o1_def] r bn by simp
  have "babelTransform ext inputFiles options =
      (Resolved [a\<lparr>text' := code r @ ''\<newline>//# sourceMappingURL=a.js.map''\<rparr>,
            m\<lparr>text' := JSON_stringify ext (map' r)\<rparr>], o1)"
    using babelTransform_pair [OF ends assms(3), of ext options] tf by simp
  moreover have "inputSourceMap o1 = Some v" by (simp add: o1_def optionsWithMap_def)
  ultimately show ?thesis using r by auto
qed

theorem babelTransform_map_pairing_witness:
  \<open>fst (babelTransform sampleExt
          [\<lparr>name = ''a.js'', text' = ''let x;'', writeByteOrderMark = False\<rparr>,
           \<lparr>name = ''a.js.map'', text' = sampleMapText, writeByteOrderMark = True\<rparr>]
          sampleOptions) =
     Resolved [\<lparr>name = ''a.js'', text' = ''/*es5*/let x;\<newline>//# sourceMappingURL=a.js.map'',
                writeByteOrderMark = False\<rparr>,
               \<lparr>name = ''a.js.map'', text' = ''{"version":3}'', writeByteOrderMark = True\<rparr>]\<close>
  using babelTransform_map_pairing
    [of "\<lparr>name = ''a.js'', text' = ''let x;'', writeByteOrderMark = False\<rparr>"
        "\<lparr>name = ''a.js.map'', text' = sampleMapText, writeByteOrderMark = True\<rparr>"
        "[\<lparr>name = ''a.js'', text' = ''let x;'', writeByteOrderMark = False\<rparr>,
          \<lparr>name = ''a.js.map'', text' = sampleMapText, writeByteOrderMark = True\<rparr>]"
        sampleExt sampleMap sampleOptions]
  by (simp add: sample_defs run_defs isRawSourceMap_def)

text \<open>
  Claim C3. For the batch of \<^verbatim>\<open>c.js\<close> and \<^verbatim>\<open>c.js.map\<close>, with a Babel whose results carry
  no map, the batch transform resolves with one file: \<^verbatim>\<open>c.js\<close>, whose text is Babel's
  code with nothing appended. The map file of the input is not in the output.
\<close>

theorem babelTransform_map_dropped:
  assumes "name c = ''c.js''" and "name m = ''c.js.map''"
    and "inputFiles = [c, m] \<or> inputFiles = [m, c]"
    and "JSON_parse ext (text' m) = Some v" and "isRawSourceMap v"
    and "\<And>opts. \<exists>r. babel_transform ext (text' c) opts = Inr r \<and> \<not> truthy (map' r)"
  shows "\<exists>r. babel_transform ext (text' c) (snd (babelTransform ext inputFiles options)) = Inr r
           \<and> \<not> truthy (map' r)
           \<and> fst (babelTransform ext inputFiles options) = Resolved [c\<lparr>text' := code r\<rparr>]"
proof -
  have ends: "\<not> endsWith (name c) ''.map''" "endsWith (name m) ''.map''"
    using assms(1,2) by (simp_all add: endsWith_def)
  have fm: "findSourceMapFile c inputFiles = Some m"
    using assms(1,2,3) ends findSourceMapFile_pair [of m c] by auto
  obtain sroot srcs src0 target where rd:
    "truthy v" "getProp v ''sourceRoot'' = Inr sroot" "getProp v ''sources'' = Inr srcs"
    "getIndex0 srcs = Inr src0" "getProp v ''file'' = Inr target"
    using assms(5) by (rule isRawSourceMap_reads)
  define o1 where "o1 = optionsWithMap c v sroot src0 target (extendOverrides options)"
  obtain r where r: "babel_transform ext (text' c) o1 = Inr r" "\<not> truthy (map' r)"
    using assms(6) by blast
  have tf: "transformFile ext c (extendOverrides options) inputFiles =
      (Inr [c\<lparr>text' := code r\<rparr>], o1)"
    using transformFile_with_map [OF fm assms(4) rd o1_def] r by simp
  have "babelTransform ext inputFiles options = (Resolved [c\<lparr>text' := code r\<rparr>], o1)"
    using babelTransform_pair [OF ends assms(3), of ext options] tf by simp
  then show ?thesis using r by auto
qed

theorem babelTransform_map_dropped_witness:
  "fst (babelTransform (sampleExt\<lparr>babel_transform := sampleTransformNoMap\<rparr>)
          [\<lparr>name = ''c.js'', text' = ''let z;'', writeByteOrderMark = False\<rparr>,
           \<lparr>name = ''c.js.map'', text' = sampleMapText, writeByteOrderMark = False\<rparr>]
          sampleOptions) =
     Resolved [\<lparr>name = ''c.js'', text' = ''/*es5*/let z;'', writeByteOrderMark = False\<rparr>]"
  using babelTransform_map_dropped
    [of "\<lparr>name = ''c.js'', text' = ''let z;'', writeByteOrderMark = False\<rparr>"
        "\<lparr>name = ''c.js.map'', text' = sampleMapText, writeByteOrderMark = False\<rparr>"
        "[\<lparr>name = ''c.js'', text' = ''let z;'', writeByteOrderMark = False\<rparr>,
          \<lparr>name = ''c.js.map'', text' = sampleMapText, writeByteOrderMark = False\<rparr>]"
        "sampleExt\<lparr>babel_transform := sampleTransformNoMap\<rparr>" sampleMap sampleOptions]
  by (simp add: sample_defs run_defs isRawSourceMap_def)



text \<open>
  Claim C4. Take two source files, the first with its map file in the batch and the
  second without one. The batch transform over all of them gives the outputs of the
  batch of the first file and its map, followed by the outputs of the batch of the
  second file alone, and is rejected where one of the two is. The options the second
  file's run ends with are those of its run alone: what the first file wrote into
  \<^verbatim>\<open>sourceRoot\<close>, \<^verbatim>\<open>sourceFileName\<close>, \<^verbatim>\<open>sourceMapTarget\<close> and \<^verbatim>\<open>inputSourceMap\<close> is gone.
\<close>

theorem babelTransform_no_leak:
  assumes "findSourceMapFile f1 [f1, m1, f2] = Some m1"
    and "findSourceMapFile f2 [f1, m1, f2] = None"
    and "\<not> endsWith (name f2) ''.map''"
  shows "fst (babelTransform ext [f1, m1, f2] options) =
           (case fst (babelTransform ext [f1, m1] options) of
              Rejected e \<Rightarrow> Rejected e
            | Resolved out1 \<Rightarrow>
                (case fst (babelTransform ext [f2] options) of
                   Rejected e \<Rightarrow> Rejected e
                 | Resolved out2 \<Rightarrow> Resolved (out1 @ out2)))
         \<and> ((\<exists>out1. fst (babelTransform ext [f1, m1] options) = Resolved out1) \<longrightarrow>
              snd (babelTransform ext [f1, m1, f2] options) = snd (babelTransform ext [f2] options))"
proof -
  let ?o = "extendOverrides options"
  have nf1: "\<not> endsWith (name f1) ''.map''"
    using assms(1) by (rule findSourceMapFile_Some_not_map)
  have nm1: "name m1 = name f1 @ ''.map''"
    using assms(1) by (rule findSourceMapFile_Some_name)
  have em1: "endsWith (name m1) ''.map''"
    by (simp add: nm1 endsWith_def)
  have c1: "findSourceMapFile f1 [f1, m1] = Some m1"
    using nf1 nm1 by (simp add: findSourceMapFile_def)
  have c2: "findSourceMapFile f2 [f2] = None"
    by (rule findSourceMapFile_single)
  obtain r1 o1 where t1: "transformFile ext f1 ?o [f1, m1, f2] = (r1, o1)"
    by (cases "transformFile ext f1 ?o [f1, m1, f2]")
  have t1': "transformFile ext f1 ?o [f1, m1] = (r1, o1)"
    using t1 transformFile_context [of f1 "[f1, m1, f2]" "[f1, m1]" ext ?o] assms(1) c1 by simp
  have o1: "clearPerFile o1 = clearPerFile ?o"
    using transformFile_state [of ext f1 ?o "[f1, m1, f2]"] t1 by simp
  have s2: "snd (transformFile ext f2 o1 [f1, m1, f2]) = optionsWithoutMap f2 ?o"
    using transformFile_no_map_state [OF assms(2), of ext o1] optionsWithoutMap_clear [OF o1]
    by simp
  have s2': "snd (transformFile ext f2 ?o [f2]) = optionsWithoutMap f2 ?o"
    using transformFile_no_map_state [OF c2, of ext ?o] by simp
  have r2: "fst (transformFile ext f2 o1 [f1, m1, f2]) = fst (transformFile ext f2 ?o [f2])"
    using transformFile_fst_cong [OF o1, of ext f2 "[f1, m1, f2]"]
      transformFile_context [of f2 "[f1, m1, f2]" "[f2]" ext ?o] assms(2) c2 by simp
  obtain r2v o2 where t2: "transformFile ext f2 o1 [f1, m1, f2] = (r2v, o2)"
    by (cases "transformFile ext f2 o1 [f1, m1, f2]")
  obtain r2w o2w where t2': "transformFile ext f2 ?o [f2] = (r2w, o2w)"
    by (cases "transformFile ext f2 ?o [f2]")
  have eq: "r2w = r2v" "o2w = o2"
    using r2 s2 s2' t2 t2' by simp_all
  show ?thesis
    using nf1 em1 assms(3) t1 t1' t2 t2' eq
    by (cases r1; cases r2v) (simp_all add: babelTransform_def)
qed

theorem babelTransform_no_leak_witness:
  \<open>fst (babelTransform sampleExt
          [\<lparr>name = ''a.js'', text' = ''let x;'', writeByteOrderMark = False\<rparr>,
           \<lparr>name = ''a.js.map'', text' = sampleMapText, writeByteOrderMark = False\<rparr>,
           \<lparr>name = ''b.js'', text' = ''let y;'', writeByteOrderMark = False\<rparr>]
          sampleOptions) =
     Resolved [\<lparr>name = ''a.js'', text' = ''/*es5*/let x;\<newline>//# sourceMappingURL=a.js.map'',
                writeByteOrderMark = False\<rparr>,
               \<lparr>name = ''a.js.map'', text' = ''{"version":3}'', writeByteOrderMark = False\<rparr>,
               \<lparr>name = ''b.js'', text' = ''/*es5*/let y;'', writeByteOrderMark = False\<rparr>]
    \<and> sourceMaps (snd (babelTransform sampleExt
          [\<lparr>name = ''a.js'', text' = ''let x;'', writeByteOrderMark = False\<rparr>,
           \<lparr>name = ''a.js.map'', text' = sampleMapText, writeByteOrderMark = False\<rparr>,
           \<lparr>name = ''b.js'', text' = ''let y;'', writeByteOrderMark = False\<rparr>]
          sampleOptions)) = Some (JBool False)\<close>
  using babelTransform_no_leak
    [of "\<lparr>name = ''a.js'', text' = ''let x;'', writeByteOrderMark = False\<rparr>"
        "\<lparr>name = ''a.js.map'', text' = sampleMapText, writeByteOrderMark = False\<rparr>"
        "\<lparr>name = ''b.js'', text' = ''let y;'', writeByteOrderMark = False\<rparr>"
        sampleExt sampleOptions]
  by (simp add: sample_defs run_defs)

text \<open>
  Claim C5. If the batch holds a file whose map file is found and the text of that map
  file is not JSON, the call of \<^verbatim>\<open>transformFile\<close> for it throws the JSON error, and the
  promise of the batch transform is rejected: there is no output batch, whatever the
  other files are. The same holds for the method of the class where the file is one it
  transforms.
\<close>

theorem babelTransform_malformed_map:
  assumes "f \<in> set inputFiles" and "findSourceMapFile f inputFiles = Some m"
    and "JSON_parse ext (text' m) = None"
  shows "fst (transformFile ext f options inputFiles) = Inl JSONSyntaxError
         \<and> (\<exists>e. fst (babelTransform ext inputFiles options) = Rejected e)
         \<and> (shouldTransformFile (name f) \<longrightarrow>
              (\<exists>e. fst (BabelPlugin_babelTransform ext this inputFiles) = Rejected e))"
proof -
  have nm: "\<not> endsWith (name f) ''.map''"
    using assms(2) by (rule findSourceMapFile_Some_not_map)
  let ?g = "\<lambda>f. if endsWith (name f) ''.map'' then Inr []
                 else fst (transformFile ext f (extendOverrides options) inputFiles)"
  have "?g f = Inl JSONSyntaxError"
    using nm transformFile_bad_json [OF assms(2,3)] by simp
  then have "\<exists>e'. collect (map ?g inputFiles) = Inl e'"
    using collect_Inl [of f inputFiles ?g JSONSyntaxError] assms(1) by blast
  then have a: "\<exists>e. fst (babelTransform ext inputFiles options) = Rejected e"
    by (auto simp: babelTransform_collect settled_def)
  let ?h = "\<lambda>f. if shouldTransformFile (name f)
                 then fst (transformFile ext f (babelOptions this) inputFiles)
                 else if shouldDiscardFile (name f) then Inr [] else Inr [f]"
  have b: "\<exists>e. fst (BabelPlugin_babelTransform ext this inputFiles) = Rejected e"
    if "shouldTransformFile (name f)"
  proof -
    have "?h f = Inl JSONSyntaxError"
      using that transformFile_bad_json [OF assms(2,3)] by simp
    then have "\<exists>e'. collect (map ?h inputFiles) = Inl e'"
      using collect_Inl [of f inputFiles ?h JSONSyntaxError] assms(1) by blast
    then show ?thesis
      by (auto simp: BabelPlugin_babelTransform_collect settled_def)
  qed
  show ?thesis
    using a b transformFile_bad_json [OF assms(2,3)] by blast
qed

theorem babelTransform_malformed_map_witness:
  "fst (babelTransform sampleExt
          [\<lparr>name = ''a.js'', text' = ''let x;'', writeByteOrderMark = False\<rparr>,
           \<lparr>name = ''a.js.map'', text' = ''{'', writeByteOrderMark = False\<rparr>]
          sampleOptions) = Rejected JSONSyntaxError
   \<and> fst (BabelPlugin_babelTransform sampleExt samplePlugin
          [\<lparr>name = ''a.js'', text' = ''let x;'', writeByteOrderMark = False\<rparr>,
           \<lparr>name = ''a.js.map'', text' = ''{'', writeByteOrderMark = False\<rparr>])
       = Rejected JSONSyntaxError"
  using babelTransform_malformed_map
    [of "\<lparr>name = ''a.js'', text' = ''let x;'', writeByteOrderMark = False\<rparr>"
        "[\<lparr>name = ''a.js'', text' = ''let x;'', writeByteOrderMark = False\<rparr>,
          \<lparr>name = ''a.js.map'', text' = ''{'', writeByteOrderMark = False\<rparr>]"
        "\<lparr>name = ''a.js.map'', text' = ''{'', writeByteOrderMark = False\<rparr>"
        sampleExt sampleOptions samplePlugin]
  by (simp add: sample_defs run_defs)


section \<open>The debug entry points\<close>

text \<open>
  Claim C9. With hooks that do nothing but resolve, whatever value they resolve with,
  the debug entry point settles exactly as the batch transform does on the same batch
  and options, and leaves the options as the batch transform leaves them. This holds
  for the function of \<^verbatim>\<open>src/index.ts\<close> and for the method of the class.
\<close>

theorem babelTransformDebug_invariance:
  "babelTransformDebug ext files options (\<lambda>f. Resolved (vi f)) (\<lambda>f. Resolved (vo f)) =
     babelTransform ext files options
   \<and> BabelPlugin_babelTransformDebug ext this files (\<lambda>f. Resolved (vi f)) (\<lambda>f. Resolved (vo f)) =
     BabelPlugin_babelTransform ext this files"
  by (simp add: babelTransformDebug_def BabelPlugin_babelTransformDebug_def promiseAll_Resolved
        split: prod.splits promise.splits)

theorem babelTransformDebug_invariance_witness:
  \<open>fst (babelTransformDebug sampleExt
          [\<lparr>name = ''a.js'', text' = ''let x;'', writeByteOrderMark = False\<rparr>,
           \<lparr>name = ''a.js.map'', text' = sampleMapText, writeByteOrderMark = False\<rparr>]
          sampleOptions (\<lambda>f. Resolved ()) (\<lambda>f. Resolved ())) =
     Resolved [\<lparr>name = ''a.js'', text' = ''/*es5*/let x;\<newline>//# sourceMappingURL=a.js.map'',
                writeByteOrderMark = False\<rparr>,
               \<lparr>name = ''a.js.map'', text' = ''{"version":3}'', writeByteOrderMark = False\<rparr>]\<close>
  using babelTransformDebug_invariance
    [of sampleExt
        "[\<lparr>name = ''a.js'', text' = ''let x;'', writeByteOrderMark = False\<rparr>,
          \<lparr>name = ''a.js.map'', text' = sampleMapText, writeByteOrderMark = False\<rparr>]"
        sampleOptions "\<lambda>f. ()" "\<lambda>f. ()" samplePlugin]
  by (simp add: sample_defs run_defs)

end
